theory Spec2Isabelle
  imports Main
begin

section \<open>JavaScript values\<close>

text \<open>
  A field typed \<open>T | null\<close> or \<open>T | undefined\<close> is a \<open>T option\<close>. Where the source
  tells \<open>null\<close> from \<open>undefined\<close> (the hooks at the end) the three-way type below is used.
\<close>

datatype 'a maybe = Null | Undefined | Defined 'a

text \<open>\<open>a ?? b\<close>: the left operand unless it is \<open>null\<close> or \<open>undefined\<close>.\<close>

definition nullish :: "'a option \<Rightarrow> 'a option \<Rightarrow> 'a option" where
  "nullish a b = (case a of None \<Rightarrow> b | Some v \<Rightarrow> Some v)"

text \<open>
  \<open>Map.get\<close> on a \<open>Map<K, V | null>\<close>: \<open>undefined\<close> for a missing key, the stored value
  (possibly \<open>null\<close>) otherwise. Both absent values behave alike under \<open>??\<close>.
\<close>

definition map_get :: "('k \<rightharpoonup> 'v option) \<Rightarrow> 'k \<Rightarrow> 'v option" where
  "map_get m k = (case m k of None \<Rightarrow> None | Some v \<Rightarrow> v)"

text \<open>Array indexing \<open>arr[j]\<close>: \<open>undefined\<close> outside \<open>0 \<le> j < arr.length\<close>.\<close>

definition js_nth :: "'a list \<Rightarrow> int \<Rightarrow> 'a option" where
  "js_nth arr j = (if 0 \<le> j \<and> j < int (length arr) then Some (arr ! nat j) else None)"

text \<open>
  \<open>arr.filter((x, pos, arr) => p)\<close>: the callback sees the element, its position and
  the array being filtered (not the partial result).
\<close>

fun filter_from :: "('a \<Rightarrow> nat \<Rightarrow> 'a list \<Rightarrow> bool) \<Rightarrow> nat \<Rightarrow> 'a list \<Rightarrow> 'a list \<Rightarrow> 'a list" where
  "filter_from p pos arr [] = []"
| "filter_from p pos arr (x # xs) =
     (if p x pos arr then x # filter_from p (Suc pos) arr xs
      else filter_from p (Suc pos) arr xs)"

definition js_filter :: "('a \<Rightarrow> nat \<Rightarrow> 'a list \<Rightarrow> bool) \<Rightarrow> 'a list \<Rightarrow> 'a list" where
  "js_filter p arr = filter_from p 0 arr arr"

text \<open>
  \<open>String.prototype.trim\<close> strips white space and line terminators from both ends. A
  \<open>char\<close> stands for a code unit below 256; among those, the white space and line
  terminators of ECMAScript are tab, line feed, vertical tab, form feed, carriage return,
  space and the no-break space U+00A0. Code units from 256 on (where the remaining Unicode
  spaces lie) are outside the type.
\<close>

definition isWhiteSpace :: "char \<Rightarrow> bool" where
  "isWhiteSpace c =
     (c \<in> set [CHR 0x09, CHR 0x0A, CHR 0x0B, CHR 0x0C, CHR 0x0D, CHR 0x20, CHR 0xA0])"

definition trim :: "string \<Rightarrow> string" where
  "trim v = rev (dropWhile isWhiteSpace (rev (dropWhile isWhiteSpace v)))"

section \<open>Errors\<close>

text \<open>
  \<open>AssertionError\<close>: \<open>assertNotNull\<close> failed. \<open>UndefinedValue\<close>: \<open>undefined\<close> reached
  the text model's \<open>setValue\<close>, which takes a string. \<open>CanceledPromiseError\<close>: the rejection
  of a cancelled promise. \<open>FetchError\<close>: any other rejection of a history fetch.
\<close>

datatype error = AssertionError | UndefinedValue | CanceledPromiseError | FetchError string

text \<open>
  Modelled from the spec: \<open>PromiseUtils.isCanceled\<close> of \<open>@deephaven/utils\<close> is not among
  the sources; it recognises the errors that "represent a deliberate cancellation".
\<close>

definition isCanceled :: "error \<Rightarrow> bool" where
  "isCanceled err = (err = CanceledPromiseError)"

section \<open>The console input\<close>

definition BUFFER_SIZE :: nat where
  "BUFFER_SIZE = 100"

text \<open>\<open>monaco.KeyCode.Enter\<close>.\<close>

definition KeyCode_Enter :: nat where
  "KeyCode_Enter = 3"

record keyEvent =
  altKey :: bool
  shiftKey :: bool
  metaKey :: bool
  ctrlKey :: bool
  code :: string
  keyCode :: nat

text \<open>
  The remote collaborators, as far as the component touches them: a history row has a
  \<open>name\<close> (the command text); a table handle has an identity and a \<open>size\<close>; a viewport
  read delivers \<open>items\<close>.
\<close>

record CommandHistoryStorageItem =
  item_id :: string
  name :: string

record CommandHistoryTable =
  handle :: nat
  size_tbl :: nat

record ViewportData =
  items :: "CommandHistoryStorageItem list"
  offset :: nat

text \<open>
  The two promises \<open>loadMoreHistory\<close> wraps and awaits, the values they resolve to, and
  the calls the component makes on the storage and on a table.
\<close>

datatype fetch = GetTable | GetViewportData CommandHistoryTable

datatype resolved = Table CommandHistoryTable | Data ViewportData

datatype request =
    GetTableCall
  | SetReversed CommandHistoryTable bool
  | SetViewport CommandHistoryTable "nat option" nat
  | GetViewportDataCall CommandHistoryTable
  | Close CommandHistoryTable

datatype log_entry = Debug2 string | LogError string error

text \<open>
  The instance fields of \<open>ConsoleInput\<close> that the history logic reads and writes, followed
  by what the component does to its surroundings: the wrapped promises it has cancelled whose
  underlying request is still outstanding, the calls made on storage and tables, the log
  lines, and the commands handed to \<open>onSubmit\<close>.

  \<open>commandEditor\<close> is \<open>None\<close> before mounting and after \<open>destroyCommandEditor\<close>, and
  otherwise holds the text of the editor's model. \<open>commandHistoryIndex\<close> is typed
  \<open>number | null\<close>: an offset into \<open>history\<close>, counted from its end, and an integer that
  nothing in its type keeps from being negative.
\<close>

record ConsoleInput =
  commandEditor :: "string option"
  commandHistoryIndex :: "int option"
  loadingPromise :: "fetch option"
  bufferIndex :: "nat option"
  history :: "string list"
  modifiedCommands :: "int option \<rightharpoonup> string option"
  canceled :: "fetch list"
  requests :: "request list"
  logged :: "log_entry list"
  submitted :: "string list"

text \<open>The state the constructor leaves.\<close>

definition constructor :: ConsoleInput where
  "constructor = \<lparr>commandEditor = None, commandHistoryIndex = None, loadingPromise = None,
     bufferIndex = Some 0, history = [], modifiedCommands = Map.empty,
     canceled = [], requests = [], logged = [], submitted = []\<rparr>"

subsection \<open>The editor and its content listener\<close>

text \<open>
  The listener registered with \<open>onDidChangeModelContent\<close>: it files the editor's text
  under the current history index (\<open>value ?? null\<close>).
\<close>

definition onDidChangeModelContent :: "ConsoleInput \<Rightarrow> ConsoleInput" where
  "onDidChangeModelContent s =
     s\<lparr>modifiedCommands := (modifiedCommands s)(commandHistoryIndex s \<mapsto> commandEditor s)\<rparr>"

text \<open>
  \<open>this.commandEditor?.setValue(v)\<close>: nothing without an editor; with one, the text is
  replaced and the content listener runs ("On value change, modified commands map updates").
\<close>

definition setValue :: "string \<Rightarrow> ConsoleInput \<Rightarrow> ConsoleInput" where
  "setValue v s =
     (case commandEditor s of
        None \<Rightarrow> s
      | Some _ \<Rightarrow> onDidChangeModelContent (s\<lparr>commandEditor := Some v\<rparr>))"

text \<open>
  \<open>this.commandEditor?.getModel()?.setValue(e)\<close> where \<open>e\<close> may evaluate to
  \<open>undefined\<close>: the optional chain skips the call without an editor.
\<close>

definition setModelValue :: "string option \<Rightarrow> ConsoleInput \<Rightarrow> error + ConsoleInput" where
  "setModelValue e s =
     (case commandEditor s of
        None \<Rightarrow> Inr s
      | Some _ \<Rightarrow> (case e of None \<Rightarrow> Inl UndefinedValue | Some v \<Rightarrow> Inr (setValue v s)))"

definition initCommandEditor :: "ConsoleInput \<Rightarrow> ConsoleInput" where
  "initCommandEditor s = s\<lparr>commandEditor := Some ''''\<rparr>"

definition destroyCommandEditor :: "ConsoleInput \<Rightarrow> ConsoleInput" where
  "destroyCommandEditor s = s\<lparr>commandEditor := None\<rparr>"

subsection \<open>Fetching history\<close>

text \<open>
  \<open>loadMoreHistory\<close> up to its first \<open>await\<close>: the guard, then the wrapped
  \<open>getTable\<close> request.
\<close>

definition loadMoreHistory :: "ConsoleInput \<Rightarrow> ConsoleInput" where
  "loadMoreHistory s =
     (if loadingPromise s \<noteq> None \<or> bufferIndex s = None then s
      else s\<lparr>loadingPromise := Some GetTable, requests := requests s @ [GetTableCall]\<rparr>)"

text \<open>A \<open>null\<close> operand of \<open>+\<close> counts as \<open>0\<close>.\<close>

definition js_num :: "nat option \<Rightarrow> nat" where
  "js_num b = (case b of None \<Rightarrow> 0 | Some n \<Rightarrow> n)"

text \<open>The callback of the \<open>filter\<close> over a fetched page.\<close>

definition keep_item :: "CommandHistoryStorageItem \<Rightarrow> nat \<Rightarrow> CommandHistoryStorageItem list \<Rightarrow> bool" where
  "keep_item item pos arr = (pos = 0 \<or> name item \<noteq> name (arr ! (pos - 1)))"

text \<open>The page as it is put in front of \<open>history\<close>: filtered, mapped to names, reversed.\<close>

definition page_commands :: "ViewportData \<Rightarrow> string list" where
  "page_commands viewportData = rev (map name (js_filter keep_item (items viewportData)))"

text \<open>
  The \<open>try\<close> block from an \<open>await\<close> to the next one (or to the end). The first argument
  is the promise awaited, the second how it settled. \<open>Inl\<close> is an exception leaving the
  block, with the state at the throw. A rejected promise makes the \<open>await\<close> throw. A
  value of the wrong shape lacks what the block uses: after the first \<open>await\<close> the call
  \<open>table.setReversed\<close> throws at once; after the second, \<open>bufferIndex\<close> is advanced and
  compared with \<open>table.size\<close> before \<open>viewportData.items.filter\<close> throws.
\<close>

definition advance :: "CommandHistoryTable \<Rightarrow> nat option \<Rightarrow> nat option" where
  "advance table b =
     (if js_num b + BUFFER_SIZE \<ge> size_tbl table then None else Some (js_num b + BUFFER_SIZE))"

fun loadMoreHistory_try ::
  "fetch \<Rightarrow> error + resolved \<Rightarrow> ConsoleInput \<Rightarrow> (error \<times> ConsoleInput) + ConsoleInput" where
  "loadMoreHistory_try p (Inl err) s = Inl (err, s)"
| "loadMoreHistory_try GetTable (Inr (Table table)) s =
     Inr (s\<lparr>loadingPromise := Some (GetViewportData table),
            requests := requests s @
              [SetReversed table True,
               SetViewport table (bufferIndex s) (js_num (bufferIndex s) + BUFFER_SIZE - 1),
               GetViewportDataCall table]\<rparr>)"
| "loadMoreHistory_try GetTable (Inr (Data viewportData)) s =
     Inl (FetchError ''TypeError'', s)"
| "loadMoreHistory_try (GetViewportData table) (Inr (Data viewportData)) s =
     Inr (s\<lparr>bufferIndex := advance table (bufferIndex s),
            history := page_commands viewportData @ history s,
            loadingPromise := None,
            requests := requests s @ [Close table]\<rparr>)"
| "loadMoreHistory_try (GetViewportData table) (Inr (Table other)) s =
     Inl (FetchError ''TypeError'', s\<lparr>bufferIndex := advance table (bufferIndex s)\<rparr>)"

text \<open>The \<open>catch\<close> block; \<open>Inr\<close> is normal completion.\<close>

definition loadMoreHistory_catch :: "error \<Rightarrow> ConsoleInput \<Rightarrow> error + ConsoleInput" where
  "loadMoreHistory_catch err s =
     (let s1 = s\<lparr>loadingPromise := None\<rparr>
      in if isCanceled err
         then Inr (s1\<lparr>logged := logged s1 @ [Debug2 ''Promise canceled, not loading history'']\<rparr>)
         else Inr (s1\<lparr>logged := logged s1 @ [LogError ''Error fetching history'' err]\<rparr>))"

text \<open>
  \<open>loadMoreHistory\<close> resumed when the promise it awaits settles with \<open>r\<close>. \<open>Inl\<close> would
  be an exception reaching the caller (a rejection of the promise the method returns).
\<close>

definition loadMoreHistory_resume :: "error + resolved \<Rightarrow> ConsoleInput \<Rightarrow> error + ConsoleInput" where
  "loadMoreHistory_resume r s =
     (case loadingPromise s of
        None \<Rightarrow> Inr s
      | Some p \<Rightarrow>
          (case loadMoreHistory_try p r s of
             Inl (err, s1) \<Rightarrow> loadMoreHistory_catch err s1
           | Inr s' \<Rightarrow> Inr s'))"

text \<open>
  Modelled from the spec: \<open>PromiseUtils.makeCancelable\<close> of \<open>@deephaven/utils\<close> is not
  among the sources. The spec calls it "a cancelable-promise pattern" in which a "cancelled
  fetch closes its resource"; the source passes the closing callback as second argument,
  \<open>resolved => resolved.close()\<close> around \<open>getTable\<close> and \<open>() => table.close()\<close> around
  \<open>getViewportData\<close>. So \<open>cancel\<close> marks the wrapped promise as cancelled and rejects it
  with the cancellation error, and when the underlying request of a cancelled promise later
  resolves, the callback runs on the value.
\<close>

definition cancel :: "ConsoleInput \<Rightarrow> ConsoleInput" where
  "cancel s = (case loadingPromise s of None \<Rightarrow> s | Some p \<Rightarrow> s\<lparr>canceled := canceled s @ [p]\<rparr>)"

fun cleanup :: "fetch \<Rightarrow> resolved \<Rightarrow> request list" where
  "cleanup GetTable (Table table) = [Close table]"
| "cleanup GetTable (Data viewportData) = []"
| "cleanup (GetViewportData table) v = [Close table]"

text \<open>The underlying request of the \<open>k\<close>-th cancelled promise settles with \<open>r\<close>.\<close>

definition settle_canceled :: "nat \<Rightarrow> error + resolved \<Rightarrow> ConsoleInput \<Rightarrow> ConsoleInput" where
  "settle_canceled k r s =
     (if k < length (canceled s)
      then (case r of
              Inl err \<Rightarrow> s\<lparr>canceled := take k (canceled s) @ drop (Suc k) (canceled s)\<rparr>
            | Inr v \<Rightarrow> s\<lparr>canceled := take k (canceled s) @ drop (Suc k) (canceled s),
                         requests := requests s @ cleanup (canceled s ! k) v\<rparr>)
      else s)"

subsection \<open>Mounting and unmounting\<close>

definition componentDidMount :: "ConsoleInput \<Rightarrow> ConsoleInput" where
  "componentDidMount s = loadMoreHistory (initCommandEditor s)"

definition componentWillUnmount :: "ConsoleInput \<Rightarrow> ConsoleInput" where
  "componentWillUnmount s =
     destroyCommandEditor (if loadingPromise s \<noteq> None then cancel s else s)"

text \<open>
  Unmounting as one event: \<open>componentWillUnmount\<close>, then the awaiting \<open>loadMoreHistory\<close>
  resumes with the rejection of the promise that was cancelled.
\<close>

definition unmount :: "ConsoleInput \<Rightarrow> error + ConsoleInput" where
  "unmount s = loadMoreHistory_resume (Inl CanceledPromiseError) (componentWillUnmount s)"

subsection \<open>Commands\<close>

text \<open>
  \<open>processCommand\<close>: the command is a string, so its \<open>assertNotNull\<close> passes;
  \<open>updateDimensions\<close> only lays the editor out; \<open>onSubmit\<close> receives the command.
\<close>

definition processCommand :: "string \<Rightarrow> ConsoleInput \<Rightarrow> ConsoleInput" where
  "processCommand command s =
     (let s1 = s\<lparr>commandHistoryIndex := None, modifiedCommands := Map.empty\<rparr>;
          s2 = (if command \<noteq> '''' \<and>
                   (length (history s1) = 0 \<or>
                    command \<noteq> history s1 ! (length (history s1) - 1))
                then s1\<lparr>history := history s1 @ [command]\<rparr>
                else s1)
      in s2\<lparr>submitted := submitted s2 @ [command]\<rparr>)"

text \<open>
  \<open>loadCommand\<close>: the index is a JavaScript number (an integer here), and the only test
  on it is \<open>index >= this.history.length\<close>. The subtractions are taken in the integers;
  \<open>history.length - BUFFER_SIZE\<close> is negative for a short history. \<open>Inl\<close> is an
  exception leaving the method, with the state at the throw.
\<close>

definition loadCommand :: "int option \<Rightarrow> ConsoleInput \<Rightarrow> (error \<times> ConsoleInput) + ConsoleInput" where
  "loadCommand index s =
     (if (case index of None \<Rightarrow> False | Some i \<Rightarrow> i \<ge> int (length (history s))) then Inr s
      else
        let modifiedValue = map_get (modifiedCommands s) index;
            historyValue =
              (case index of
                 None \<Rightarrow> Some ''''
               | Some i \<Rightarrow> js_nth (history s) (int (length (history s)) - i - 1));
            s1 = s\<lparr>commandHistoryIndex := index\<rparr>
        in case setModelValue (nullish modifiedValue historyValue) s1 of
             Inl err \<Rightarrow> Inl (err, s1)
           | Inr s2 \<Rightarrow>
               if (case index of
                     None \<Rightarrow> False
                   | Some i \<Rightarrow> i > int (length (history s2)) - int BUFFER_SIZE)
               then Inr (loadMoreHistory s2)
               else Inr s2)"

text \<open>
  The key-down listener. \<open>position\<close> is the line number the editor reports for the cursor
  (\<open>None\<close> when it reports no position), \<open>lineCount\<close> the model's \<open>getLineCount()\<close>, and
  \<open>populated\<close> the answer of \<open>isSuggestionMenuPopulated()\<close>. Without an editor there is
  no position, and \<open>assertNotNull\<close> throws. \<open>focusStart\<close> and \<open>focusEnd\<close> move the cursor
  only.
\<close>

definition onKeyDown ::
  "keyEvent \<Rightarrow> nat option \<Rightarrow> nat \<Rightarrow> bool \<Rightarrow> ConsoleInput \<Rightarrow> (error \<times> ConsoleInput) + ConsoleInput" where
  "onKeyDown ev position lineCount populated s =
     (case (case commandEditor s of None \<Rightarrow> None | Some _ \<Rightarrow> position) of
        None \<Rightarrow> Inl (AssertionError, s)
      | Some lineNumber \<Rightarrow>
          if \<not> altKey ev \<and> \<not> shiftKey ev \<and> \<not> metaKey ev then
            if code ev = ''ArrowUp'' \<and> \<not> populated \<and> lineNumber = 1 then
              (case commandHistoryIndex s of
                 Some i \<Rightarrow> loadCommand (Some (i + 1)) s
               | None \<Rightarrow> loadCommand (Some 0) s)
            else if code ev = ''ArrowDown'' \<and> \<not> populated \<and> lineNumber = lineCount then
              (case commandHistoryIndex s of
                 Some i \<Rightarrow> if i > 0 then loadCommand (Some (i - 1)) s else loadCommand None s
               | None \<Rightarrow> loadCommand None s)
            else if keyCode ev = KeyCode_Enter \<and> \<not> populated then
              (case commandEditor s of
                 None \<Rightarrow> Inr s
               | Some v \<Rightarrow> Inr (setValue '''' (processCommand (trim v) s)))
            else Inr s
          else Inr s)"

section \<open>The hooks\<close>

text \<open>
  Modelled from the spec: \<open>removeNullAndUndefined\<close> of \<open>@deephaven/utils\<close> is not among
  the sources; as named, it keeps the arguments that are neither \<open>null\<close> nor \<open>undefined\<close>,
  in their order.
\<close>

fun removeNullAndUndefined :: "'a maybe list \<Rightarrow> 'a list" where
  "removeNullAndUndefined [] = []"
| "removeNullAndUndefined (Defined v # xs) = v # removeNullAndUndefined xs"
| "removeNullAndUndefined (x # xs) = removeNullAndUndefined xs"

text \<open>
  \<open>useMemo\<close> recomputes when the table or a factory changes, so with factories that are
  functions of the table the hook returns the value of its callback.
\<close>

definition useFilterConditionFactories :: "'t maybe \<Rightarrow> ('t maybe \<Rightarrow> 'c maybe) list \<Rightarrow> 'c list" where
  "useFilterConditionFactories maybeTable filterConditionFactories =
     removeNullAndUndefined (map (\<lambda>f. f maybeTable) filterConditionFactories)"

text \<open>
  Modelled from the spec: \<open>useContextOrThrow\<close> of \<open>@deephaven/react-hooks\<close> is not among
  the sources; as named, it returns the value of the context, and throws an error with the
  given message when the context holds none. The argument is the value the nearest provider
  supplies (\<open>Inl\<close> carries the message of the error thrown).
\<close>

definition useContextOrThrow :: "'a maybe \<Rightarrow> string \<Rightarrow> string + 'a" where
  "useContextOrThrow context message =
     (case context of Defined v \<Rightarrow> Inr v | Null \<Rightarrow> Inl message | Undefined \<Rightarrow> Inl message)"

definition useClient :: "'c maybe \<Rightarrow> string + 'c" where
  "useClient clientContext =
     useContextOrThrow clientContext
       ''No Client available in useClient. Was code wrapped in ClientBootstrap or ClientContext.Provider?''"

section \<open>Sample inputs\<close>

text \<open>A freshly mounted component: the editor is empty and the first fetch is in flight.\<close>

definition mounted :: ConsoleInput where
  "mounted = componentDidMount constructor"

text \<open>A mounted component whose whole history of three commands is loaded.\<close>

definition browsing :: ConsoleInput where
  "browsing = constructor\<lparr>commandEditor := Some '''', bufferIndex := None,
     history := [''x = 1'', ''y = 2'', ''print(x)'']\<rparr>"

text \<open>The same, with more rows on the server and the second entry from the end edited.\<close>

definition editing :: ConsoleInput where
  "editing = browsing\<lparr>bufferIndex := Some 100, commandHistoryIndex := Some 1,
     commandEditor := Some ''y = 3'',
     modifiedCommands := [Some 1 \<mapsto> Some ''y = 3'', None \<mapsto> Some ''z'']\<rparr>"

text \<open>The same history, browsed up to its oldest entry.\<close>

definition at_top :: ConsoleInput where
  "at_top = browsing\<lparr>commandHistoryIndex := Some 2, commandEditor := Some ''x = 1''\<rparr>"

text \<open>A key pressed with no modifier held.\<close>

definition key :: "string \<Rightarrow> nat \<Rightarrow> keyEvent" where
  "key c k = \<lparr>altKey = False, shiftKey = False, metaKey = False, ctrlKey = False,
     code = c, keyCode = k\<rparr>"

definition sample_table :: CommandHistoryTable where
  "sample_table = \<lparr>handle = 7, size_tbl = 250\<rparr>"

definition sample_page :: ViewportData where
  "sample_page = \<lparr>items =
       [\<lparr>item_id = ''5'', name = ''b''\<rparr>, \<lparr>item_id = ''4'', name = ''b''\<rparr>,
        \<lparr>item_id = ''3'', name = ''a''\<rparr>, \<lparr>item_id = ''2'', name = ''b''\<rparr>],
     offset = 0\<rparr>"

text \<open>A long loaded history, with more rows on the server.\<close>

definition deep :: ConsoleInput where
  "deep = browsing\<lparr>bufferIndex := Some 200, history := replicate 150 ''ls'' @ [''pwd'']\<rparr>"

text \<open>An unmounted component with two cancelled fetches still outstanding.\<close>

definition abandoned :: ConsoleInput where
  "abandoned = constructor\<lparr>canceled := [GetTable, GetViewportData sample_table]\<rparr>"

text \<open>A component waiting for the rows of a page.\<close>

definition awaiting_page :: ConsoleInput where
  "awaiting_page = browsing\<lparr>bufferIndex := Some 100,
     loadingPromise := Some (GetViewportData sample_table)\<rparr>"

definition sample_factories :: "(nat maybe \<Rightarrow> string maybe) list" where
  "sample_factories =
     [\<lambda>t. Defined ''a'', \<lambda>t. Null,
      \<lambda>t. (case t of Defined n \<Rightarrow> Defined ''b'' | Null \<Rightarrow> Undefined | Undefined \<Rightarrow> Null),
      \<lambda>t. Defined ''c'']"

section \<open>Properties\<close>

subsection \<open>Auxiliary facts\<close>

lemma setValue_fields:
  "history (setValue v s) = history s"
  "loadingPromise (setValue v s) = loadingPromise s"
  "bufferIndex (setValue v s) = bufferIndex s"
  "requests (setValue v s) = requests s"
  "canceled (setValue v s) = canceled s"
  "logged (setValue v s) = logged s"
  "submitted (setValue v s) = submitted s"
  "commandHistoryIndex (setValue v s) = commandHistoryIndex s"
  "commandEditor (setValue v s) = (case commandEditor s of None \<Rightarrow> None | Some u \<Rightarrow> Some v)"
  by (simp_all add: setValue_def onDidChangeModelContent_def split: option.splits)

lemma loadMoreHistory_fields:
  "history (loadMoreHistory s) = history s"
  "commandEditor (loadMoreHistory s) = commandEditor s"
  "commandHistoryIndex (loadMoreHistory s) = commandHistoryIndex s"
  "modifiedCommands (loadMoreHistory s) = modifiedCommands s"
  "bufferIndex (loadMoreHistory s) = bufferIndex s"
  "canceled (loadMoreHistory s) = canceled s"
  by (simp_all add: loadMoreHistory_def)

text \<open>The equations that run a key press or a \<open>loadCommand\<close> on a given state.\<close>

lemmas run =
  onKeyDown_def loadCommand_def setModelValue_def setValue_def onDidChangeModelContent_def
  nullish_def map_get_def js_nth_def loadMoreHistory_def BUFFER_SIZE_def Let_def

lemmas samples =
  editing_def at_top_def browsing_def deep_def constructor_def key_def

lemma js_nth_history:
  assumes "0 \<le> i" and "i < int (length xs)"
  shows "js_nth xs (int (length xs) - i - 1) = Some (xs ! nat (int (length xs) - i - 1))"
  using assms by (simp add: js_nth_def)

lemma js_nth_negative:
  "i < 0 \<Longrightarrow> js_nth xs (int (length xs) - i - 1) = None"
  by (simp add: js_nth_def)

lemma loadCommand_Some:
  assumes "0 \<le> i" and "i < int (length (history s))"
  shows "loadCommand (Some i) s =
     Inr (let s2 = setValue (case map_get (modifiedCommands s) (Some i) of
                                Some m \<Rightarrow> m
                              | None \<Rightarrow> history s ! nat (int (length (history s)) - i - 1))
                      (s\<lparr>commandHistoryIndex := Some i\<rparr>)
          in if int (length (history s)) - int BUFFER_SIZE < i
             then loadMoreHistory s2 else s2)"
proof (cases "commandEditor s")
  case None
  then show ?thesis
    using assms
    by (simp add: loadCommand_def setModelValue_def setValue_def Let_def)
next
  case (Some u)
  then show ?thesis
    using assms js_nth_history [OF assms]
    by (simp add: loadCommand_def setModelValue_def nullish_def Let_def setValue_fields
             split: option.splits)
qed

lemma loadCommand_None:
  "loadCommand None s =
     Inr (setValue (case map_get (modifiedCommands s) None of Some m \<Rightarrow> m | None \<Rightarrow> '''')
            (s\<lparr>commandHistoryIndex := None\<rparr>))"
  by (cases "commandEditor s")
     (simp_all add: loadCommand_def setModelValue_def nullish_def setValue_def split: option.splits)

lemma loadCommand_beyond:
  "int (length (history s)) \<le> i \<Longrightarrow> loadCommand (Some i) s = Inr s"
  by (simp add: loadCommand_def)

lemma loadCommand_Some_index:
  assumes "0 \<le> i"
  shows "\<exists>s'. loadCommand (Some i) s = Inr s' \<and>
              (commandHistoryIndex s' = Some i \<or> s' = s)"
proof (cases "i < int (length (history s))")
  case True
  then show ?thesis
    using loadCommand_Some [OF assms True]
    by (simp add: Let_def setValue_fields loadMoreHistory_fields)
next
  case False
  then show ?thesis by (simp add: loadCommand_beyond)
qed

lemma loadCommand_None_index:
  "\<exists>s'. loadCommand None s = Inr s' \<and> commandHistoryIndex s' = None"
  by (simp add: loadCommand_None setValue_fields)

text \<open>
  The key handler keeps the index \<open>null\<close> or non-negative, and a press in such a state
  ends normally or at the failed \<open>assertNotNull\<close>.
\<close>

lemma onKeyDown_index:
  assumes "\<forall>j. commandHistoryIndex s = Some j \<longrightarrow> 0 \<le> j"
  shows "(\<exists>s'. onKeyDown ev position lineCount populated s = Inr s' \<and>
              (\<forall>j. commandHistoryIndex s' = Some j \<longrightarrow> 0 \<le> j)) \<or>
         onKeyDown ev position lineCount populated s = Inl (AssertionError, s)"
proof (cases "case commandEditor s of None \<Rightarrow> None | Some u \<Rightarrow> position")
  case None
  then show ?thesis by (simp add: onKeyDown_def)
next
  case (Some lineNumber)
  have up: "\<exists>s'. loadCommand (Some i) s = Inr s' \<and>
              (\<forall>j. commandHistoryIndex s' = Some j \<longrightarrow> 0 \<le> j)" if "0 \<le> i" for i
    using loadCommand_Some_index [OF that, of s] assms that by auto
  have down: "\<exists>s'. loadCommand None s = Inr s' \<and>
              (\<forall>j. commandHistoryIndex s' = Some j \<longrightarrow> 0 \<le> j)"
    using loadCommand_None_index [of s] by auto
  have enter: "\<forall>j. commandHistoryIndex (setValue '''' (processCommand c s)) = Some j \<longrightarrow> 0 \<le> j"
    for c
    by (simp add: setValue_fields processCommand_def Let_def)
  show ?thesis
  proof (cases "commandHistoryIndex s")
    case None
    then show ?thesis
      using Some up [of 0] down enter assms
      by (auto simp: onKeyDown_def split: option.splits)
  next
    case (Some i)
    then have "0 \<le> i" using assms by simp
    then have "0 \<le> i + 1" and "0 < i \<longrightarrow> 0 \<le> i - 1" by simp_all
    then show ?thesis
      using \<open>(case commandEditor s of None \<Rightarrow> None | Some u \<Rightarrow> position) = Some lineNumber\<close>
        Some up [of "i + 1"] up [of "i - 1"] down enter assms
      by (auto simp: onKeyDown_def split: option.splits)
  qed
qed

lemma remdups_adj_head: "remdups_adj (a # l) = a # tl (remdups_adj (a # l))"
  by (cases l) auto

lemma filter_from_names:
  "length pre = pos \<Longrightarrow>
   map name (filter_from keep_item (Suc pos) (pre @ x # xs) xs) =
     tl (remdups_adj (map name (x # xs)))"
proof (induction xs arbitrary: pre x pos)
  case Nil
  then show ?case by simp
next
  case (Cons y ys)
  let ?R = "remdups_adj (name y # map name ys)"
  have arr: "pre @ x # y # ys = (pre @ [x]) @ y # ys" by simp
  have ih: "map name (filter_from keep_item (Suc (Suc pos)) (pre @ x # y # ys) ys) = tl ?R"
    unfolding arr using Cons.IH [of "pre @ [x]" "Suc pos" y] Cons.prems by simp
  have k: "keep_item y (Suc pos) (pre @ x # y # ys) = (name y \<noteq> name x)"
    using Cons.prems by (simp add: keep_item_def nth_append)
  have R: "?R = name y # tl ?R" by (rule remdups_adj_head)
  show ?case
  proof (cases "name y = name x")
    case True
    then show ?thesis using ih k by simp
  next
    case False
    have "map name (filter_from keep_item (Suc pos) (pre @ x # y # ys) (y # ys)) = name y # tl ?R"
      using ih k False by simp
    also have "\<dots> = ?R" using R by simp
    also have "\<dots> = tl (remdups_adj (map name (x # y # ys)))" using False by simp
    finally show ?thesis .
  qed
qed

lemma js_filter_names: "map name (js_filter keep_item arr) = remdups_adj (map name arr)"
proof (cases arr)
  case Nil
  then show ?thesis by (simp add: js_filter_def)
next
  case (Cons x xs)
  have "map name (filter_from keep_item (Suc 0) ([] @ x # xs) xs) =
          tl (remdups_adj (map name (x # xs)))"
    by (rule filter_from_names) simp
  then have "map name (js_filter keep_item (x # xs)) =
               name x # tl (remdups_adj (name x # map name xs))"
    by (simp add: js_filter_def keep_item_def)
  also have "\<dots> = remdups_adj (map name (x # xs))"
    using remdups_adj_head [of "name x" "map name xs"] by simp
  finally show ?thesis using Cons by simp
qed

lemma removeNullAndUndefined_filter:
  "map Defined (removeNullAndUndefined xs) = filter (\<lambda>r. r \<noteq> Null \<and> r \<noteq> Undefined) xs"
  by (induction xs rule: removeNullAndUndefined.induct) simp_all

subsection \<open>History navigation\<close>

text \<open>
  C1. In a mounted console input, with neither Alt, Shift nor Meta held (whatever the state
  of Ctrl) and no populated suggestion menu: ArrowUp with the cursor on line 1 is
  \<open>loadCommand\<close> at \<open>commandHistoryIndex + 1\<close>, or at \<open>0\<close> when the index is \<open>null\<close>;
  ArrowDown with the cursor on the last line is \<open>loadCommand\<close> at
  \<open>commandHistoryIndex - 1\<close> when the index is positive, and at \<open>null\<close> otherwise. What
  that loads: when the offset lies in the history, the index becomes the offset and the text
  of the editor the edited version filed under it, or else the entry that far from the end;
  an offset at or beyond \<open>history.length\<close> leaves everything as it was; \<open>null\<close> makes the
  index \<open>null\<close> and the text the edited fresh command, or else empty.
\<close>

theorem onKeyDown_arrow_history:
  assumes "commandEditor s = Some v"
    and "\<not> altKey ev" and "\<not> shiftKey ev" and "\<not> metaKey ev"
    and "\<not> populated"
  shows
    "(code ev = ''ArrowUp'' \<longrightarrow>
        onKeyDown ev (Some 1) lineCount populated s =
          loadCommand (Some (case commandHistoryIndex s of None \<Rightarrow> 0 | Some i \<Rightarrow> i + 1)) s \<and>
        (\<forall>t. t = (case commandHistoryIndex s of None \<Rightarrow> 0 | Some i \<Rightarrow> i + 1) \<longrightarrow>
           (0 \<le> t \<and> t < int (length (history s)) \<longrightarrow>
              (\<exists>s'. onKeyDown ev (Some 1) lineCount populated s = Inr s' \<and>
                    commandHistoryIndex s' = Some t \<and>
                    commandEditor s' =
                      Some (case map_get (modifiedCommands s) (Some t) of
                              Some m \<Rightarrow> m
                            | None \<Rightarrow> history s ! nat (int (length (history s)) - t - 1)) \<and>
                    history s' = history s)) \<and>
           (int (length (history s)) \<le> t \<longrightarrow>
              onKeyDown ev (Some 1) lineCount populated s = Inr s))) \<and>
     (code ev = ''ArrowDown'' \<longrightarrow>
        onKeyDown ev (Some lineCount) lineCount populated s =
          loadCommand (case commandHistoryIndex s of
                         None \<Rightarrow> None
                       | Some i \<Rightarrow> if i > 0 then Some (i - 1) else None) s \<and>
        (\<forall>i. commandHistoryIndex s = Some i \<and> 0 < i \<longrightarrow>
           (i - 1 < int (length (history s)) \<longrightarrow>
              (\<exists>s'. onKeyDown ev (Some lineCount) lineCount populated s = Inr s' \<and>
                    commandHistoryIndex s' = Some (i - 1) \<and>
                    commandEditor s' =
                      Some (case map_get (modifiedCommands s) (Some (i - 1)) of
                              Some m \<Rightarrow> m
                            | None \<Rightarrow> history s ! nat (int (length (history s)) - (i - 1) - 1)) \<and>
                    history s' = history s)) \<and>
           (int (length (history s)) \<le> i - 1 \<longrightarrow>
              onKeyDown ev (Some lineCount) lineCount populated s = Inr s)) \<and>
        ((\<forall>i. commandHistoryIndex s = Some i \<longrightarrow> i \<le> 0) \<longrightarrow>
           (\<exists>s'. onKeyDown ev (Some lineCount) lineCount populated s = Inr s' \<and>
                 commandHistoryIndex s' = None \<and>
                 commandEditor s' =
                   Some (case map_get (modifiedCommands s) None of Some m \<Rightarrow> m | None \<Rightarrow> '''') \<and>
                 history s' = history s)))"
proof -
  let ?up = "case commandHistoryIndex s of None \<Rightarrow> 0 | Some i \<Rightarrow> i + 1"
  let ?down = "case commandHistoryIndex s of
                 None \<Rightarrow> None
               | Some i \<Rightarrow> if i > 0 then Some (i - 1) else None"
  have loaded: "\<exists>s'. loadCommand (Some t) s = Inr s' \<and>
            commandHistoryIndex s' = Some t \<and>
            commandEditor s' =
              Some (case map_get (modifiedCommands s) (Some t) of
                      Some m \<Rightarrow> m
                    | None \<Rightarrow> history s ! nat (int (length (history s)) - t - 1)) \<and>
            history s' = history s"
    if "0 \<le> t" and "t < int (length (history s))" for t
    using loadCommand_Some [OF that] assms(1)
    by (simp add: Let_def setValue_fields loadMoreHistory_fields)
  have fresh: "\<exists>s'. loadCommand None s = Inr s' \<and>
            commandHistoryIndex s' = None \<and>
            commandEditor s' =
              Some (case map_get (modifiedCommands s) None of Some m \<Rightarrow> m | None \<Rightarrow> '''') \<and>
            history s' = history s"
    using assms(1) by (simp add: loadCommand_None setValue_fields)
  have up_eq: "code ev = ''ArrowUp'' \<Longrightarrow>
      onKeyDown ev (Some 1) lineCount populated s = loadCommand (Some ?up) s"
    using assms by (simp add: onKeyDown_def split: option.splits)
  have down_eq: "code ev = ''ArrowDown'' \<Longrightarrow>
      onKeyDown ev (Some lineCount) lineCount populated s = loadCommand ?down s"
    using assms by (simp add: onKeyDown_def split: option.splits)
  have up: ?thesis if "code ev = ''ArrowUp''"
    using that up_eq [OF that] loaded [of ?up] loadCommand_beyond [of s ?up] by simp
  have down: ?thesis if c: "code ev = ''ArrowDown''"
  proof (cases "commandHistoryIndex s")
    case None
    then show ?thesis using c down_eq [OF c] fresh by simp
  next
    case (Some i)
    show ?thesis
    proof (cases "0 < i")
      case True
      then show ?thesis
        using c Some down_eq [OF c] loaded [of "i - 1"] loadCommand_beyond [of s "i - 1"]
        by simp
    next
      case False
      then show ?thesis using c Some down_eq [OF c] fresh by simp
    qed
  qed
  show ?thesis
  proof (cases "code ev = ''ArrowUp''")
    case True
    then show ?thesis by (rule up)
  next
    case False
    show ?thesis
    proof (cases "code ev = ''ArrowDown''")
      case True
      then show ?thesis by (rule down)
    next
      case no: False
      show ?thesis using False no by simp
    qed
  qed
qed

theorem onKeyDown_arrow_history_witness:
  "commandEditor editing = Some ''y = 3'' \<and>
   \<not> altKey (key ''ArrowUp'' 16) \<and> \<not> shiftKey (key ''ArrowUp'' 16) \<and>
   \<not> metaKey (key ''ArrowUp'' 16) \<and>
   (\<exists>s'. onKeyDown (key ''ArrowUp'' 16) (Some 1) 1 False editing = Inr s' \<and>
         commandHistoryIndex s' = Some 2 \<and> commandEditor s' = Some ''x = 1'') \<and>
   (\<exists>s'. onKeyDown (key ''ArrowDown'' 18) (Some 1) 1 False editing = Inr s' \<and>
         commandHistoryIndex s' = Some 0 \<and> commandEditor s' = Some ''print(x)'') \<and>
   (\<exists>s'. onKeyDown (key ''ArrowUp'' 16) (Some 1) 1 False browsing = Inr s' \<and>
         commandHistoryIndex s' = Some 0 \<and> commandEditor s' = Some ''print(x)'') \<and>
   (\<exists>s'. onKeyDown (key ''ArrowDown'' 18) (Some 1) 1 False browsing = Inr s' \<and>
         commandHistoryIndex s' = None \<and> commandEditor s' = Some '''') \<and>
   onKeyDown (key ''ArrowUp'' 16) (Some 1) 1 False at_top = Inr at_top"
  using onKeyDown_arrow_history [of editing "''y = 3''" "key ''ArrowUp'' 16" False 1]
        onKeyDown_arrow_history [of editing "''y = 3''" "key ''ArrowDown'' 18" False 1]
        onKeyDown_arrow_history [of browsing "''''" "key ''ArrowUp'' 16" False 1]
        onKeyDown_arrow_history [of browsing "''''" "key ''ArrowDown'' 18" False 1]
        onKeyDown_arrow_history [of at_top "''x = 1''" "key ''ArrowUp'' 16" False 1]
  by (simp add: run samples)

text \<open>
  C2. From any state, \<open>processCommand\<close> leaves \<open>commandHistoryIndex\<close> \<open>null\<close> and
  \<open>modifiedCommands\<close> empty. Enter (no Alt, Shift or Meta, no populated suggestion menu)
  runs it on the trimmed editor text and then empties the editor; the content listener files
  that empty text under \<open>null\<close>, so afterwards the index is \<open>null\<close> and the map holds no
  edited version of any history entry, only the empty fresh command.
\<close>

theorem processCommand_resets:
  "commandHistoryIndex (processCommand command s) = None \<and>
   modifiedCommands (processCommand command s) = Map.empty \<and>
   (commandEditor s = Some v \<and> \<not> altKey ev \<and> \<not> shiftKey ev \<and> \<not> metaKey ev \<and> \<not> populated \<and>
    keyCode ev = KeyCode_Enter \<and> code ev \<noteq> ''ArrowUp'' \<and> code ev \<noteq> ''ArrowDown'' \<longrightarrow>
      (\<exists>s'. onKeyDown ev (Some lineNumber) lineCount populated s = Inr s' \<and>
            s' = setValue '''' (processCommand (trim v) s) \<and>
            commandHistoryIndex s' = None \<and>
            modifiedCommands s' = [None \<mapsto> Some '''']))"
  by (auto simp: processCommand_def Let_def onKeyDown_def setValue_def onDidChangeModelContent_def)

theorem processCommand_resets_witness:
  "commandHistoryIndex (processCommand ''y = 3'' editing) = None \<and>
   modifiedCommands (processCommand ''y = 3'' editing) = Map.empty \<and>
   commandEditor editing = Some ''y = 3'' \<and> keyCode (key ''Enter'' 3) = KeyCode_Enter \<and>
   (\<exists>s'. onKeyDown (key ''Enter'' 3) (Some 1) 1 False editing = Inr s' \<and>
         commandHistoryIndex s' = None \<and> modifiedCommands s' = [None \<mapsto> Some ''''])"
  using processCommand_resets [of "''y = 3''" editing "''y = 3''" "key ''Enter'' 3" False 1 1]
  by (simp add: editing_def browsing_def constructor_def key_def KeyCode_Enter_def)

text \<open>
  C3. For an index \<open>i\<close> with \<open>0 \<le> i < history.length\<close>, \<open>loadCommand(i)\<close> sets
  \<open>commandHistoryIndex\<close> to \<open>i\<close> and the text of the editor (when there is one) to the
  edited version filed under \<open>i\<close>, or else to \<open>history[history.length - i - 1]\<close>.
  \<open>loadCommand(null)\<close> sets the index to \<open>null\<close> and the text to the edited fresh command,
  or else to the empty string. An entry of the map that holds \<open>null\<close> counts as none.
\<close>

theorem loadCommand_contents:
  "(i < length (history s) \<longrightarrow>
      (\<exists>s'. loadCommand (Some (int i)) s = Inr s' \<and>
            commandHistoryIndex s' = Some (int i) \<and>
            commandEditor s' =
              (case commandEditor s of
                 None \<Rightarrow> None
               | Some u \<Rightarrow>
                   Some (case map_get (modifiedCommands s) (Some (int i)) of
                           Some m \<Rightarrow> m
                         | None \<Rightarrow> history s ! (length (history s) - i - 1))))) \<and>
   (\<exists>s'. loadCommand None s = Inr s' \<and>
         commandHistoryIndex s' = None \<and>
         commandEditor s' =
           (case commandEditor s of
              None \<Rightarrow> None
            | Some u \<Rightarrow>
                Some (case map_get (modifiedCommands s) None of Some m \<Rightarrow> m | None \<Rightarrow> '''')))"
proof -
  have e: "nat (int (length (history s)) - int i - 1) = length (history s) - i - 1" by simp
  have "i < length (history s) \<longrightarrow>
      (\<exists>s'. loadCommand (Some (int i)) s = Inr s' \<and>
            commandHistoryIndex s' = Some (int i) \<and>
            commandEditor s' =
              (case commandEditor s of
                 None \<Rightarrow> None
               | Some u \<Rightarrow>
                   Some (case map_get (modifiedCommands s) (Some (int i)) of
                           Some m \<Rightarrow> m
                         | None \<Rightarrow> history s ! (length (history s) - i - 1))))"
  proof
    assume a: "i < length (history s)"
    have "0 \<le> int i" and "int i < int (length (history s))" using a by simp_all
    from loadCommand_Some [OF this] show "\<exists>s'. loadCommand (Some (int i)) s = Inr s' \<and>
            commandHistoryIndex s' = Some (int i) \<and>
            commandEditor s' =
              (case commandEditor s of
                 None \<Rightarrow> None
               | Some u \<Rightarrow>
                   Some (case map_get (modifiedCommands s) (Some (int i)) of
                           Some m \<Rightarrow> m
                         | None \<Rightarrow> history s ! (length (history s) - i - 1)))"
      unfolding e by (simp add: Let_def setValue_fields loadMoreHistory_fields)
  qed
  then show ?thesis
    by (simp add: loadCommand_None setValue_fields)
qed

theorem loadCommand_contents_witness:
  "(1::nat) < length (history editing) \<and> (0::nat) < length (history editing) \<and>
   (\<exists>s'. loadCommand (Some 1) editing = Inr s' \<and> commandHistoryIndex s' = Some 1 \<and>
         commandEditor s' = Some ''y = 3'') \<and>
   (\<exists>s'. loadCommand (Some 0) editing = Inr s' \<and> commandHistoryIndex s' = Some 0 \<and>
         commandEditor s' = Some ''print(x)'') \<and>
   (\<exists>s'. loadCommand None editing = Inr s' \<and> commandHistoryIndex s' = None \<and>
         commandEditor s' = Some ''z'') \<and>
   (\<exists>s'. loadCommand None browsing = Inr s' \<and> commandHistoryIndex s' = None \<and>
         commandEditor s' = Some '''')"
  using loadCommand_contents [of 1 editing] loadCommand_contents [of 0 editing]
        loadCommand_contents [of 0 browsing]
  by (simp add: editing_def browsing_def constructor_def map_get_def)

text \<open>
  C4, as stated: for every index that \<open>loadCommand\<close> accepts, \<open>loadMoreHistory\<close> is
  triggered exactly when \<open>i > history.length - BUFFER_SIZE\<close>. The index \<open>-1\<close> passes the
  only test (\<open>-1 >= 3\<close> is false) and satisfies \<open>-1 > 3 - 100\<close>, no fetch is in flight
  and rows remain; yet the call ends at \<open>setValue\<close>, which is handed \<open>undefined\<close>, with
  the index assigned and no request issued.
\<close>

theorem backfill_negative_index_counterexample:
  "- 1 < int (length (history editing)) \<and>
   - 1 > int (length (history editing)) - int BUFFER_SIZE \<and>
   loadingPromise editing = None \<and> bufferIndex editing = Some 100 \<and>
   loadCommand (Some (- 1)) editing = Inl (UndefinedValue, editing\<lparr>commandHistoryIndex := Some (- 1)\<rparr>) \<and>
   requests (editing\<lparr>commandHistoryIndex := Some (- 1)\<rparr>) = [] \<and>
   loadingPromise (editing\<lparr>commandHistoryIndex := Some (- 1)\<rparr>) = None"
  by (simp add: editing_def browsing_def constructor_def BUFFER_SIZE_def loadCommand_def
        map_get_def nullish_def js_nth_def setModelValue_def)

text \<open>
  C4, amended. \<open>BUFFER_SIZE\<close> is 100. For an index \<open>i\<close> with
  \<open>0 \<le> i < history.length\<close>, the result of \<open>loadCommand(i)\<close> is that of
  \<open>loadMoreHistory\<close> on the state with the command loaded exactly when
  \<open>i > history.length - BUFFER_SIZE\<close>. Otherwise no request is issued and the awaited
  promise is as before; and when no fetch is in flight and rows remain, a \<open>getTable\<close>
  request is issued exactly under that condition.
\<close>

theorem loadCommand_backfill:
  assumes "0 \<le> i" and "i < int (length (history s))"
  shows "BUFFER_SIZE = 100 \<and>
     (\<exists>s1 s'. loadCommand (Some i) s = Inr s' \<and>
        requests s1 = requests s \<and> loadingPromise s1 = loadingPromise s \<and>
        s' = (if i > int (length (history s)) - int BUFFER_SIZE
              then loadMoreHistory s1 else s1) \<and>
        (\<not> i > int (length (history s)) - int BUFFER_SIZE \<longrightarrow>
           requests s' = requests s \<and> loadingPromise s' = loadingPromise s) \<and>
        (loadingPromise s = None \<and> bufferIndex s \<noteq> None \<longrightarrow>
           (requests s' = requests s @ [GetTableCall] \<and> loadingPromise s' = Some GetTable) =
           (i > int (length (history s)) - int BUFFER_SIZE)))"
proof -
  let ?s1 = "setValue (case map_get (modifiedCommands s) (Some i) of
                          Some m \<Rightarrow> m
                        | None \<Rightarrow> history s ! nat (int (length (history s)) - i - 1))
               (s\<lparr>commandHistoryIndex := Some i\<rparr>)"
  let ?c = "i > int (length (history s)) - int BUFFER_SIZE"
  let ?s' = "if ?c then loadMoreHistory ?s1 else ?s1"
  have a: "loadCommand (Some i) s = Inr ?s'"
    using loadCommand_Some [OF assms] by (simp add: Let_def)
  have b: "requests ?s1 = requests s" "loadingPromise ?s1 = loadingPromise s"
    "bufferIndex ?s1 = bufferIndex s"
    by (simp_all add: setValue_fields)
  have c: "\<not> ?c \<longrightarrow> requests ?s' = requests s \<and> loadingPromise ?s' = loadingPromise s"
    using b by simp
  have d: "loadingPromise s = None \<and> bufferIndex s \<noteq> None \<longrightarrow>
           (requests ?s' = requests s @ [GetTableCall] \<and> loadingPromise ?s' = Some GetTable) = ?c"
    using b by (auto simp: loadMoreHistory_def)
  show ?thesis
    using a b c d by (intro conjI exI [of _ ?s1] exI [of _ ?s']) (simp_all add: BUFFER_SIZE_def)
qed

theorem loadCommand_backfill_witness:
  "(0::int) < int (length (history editing)) \<and> (10::int) < int (length (history deep)) \<and>
   (140::int) < int (length (history deep)) \<and>
   (\<exists>s'. loadCommand (Some 0) editing = Inr s' \<and>
         requests s' = [GetTableCall] \<and> loadingPromise s' = Some GetTable) \<and>
   (\<exists>s'. loadCommand (Some 10) deep = Inr s' \<and> requests s' = [] \<and> loadingPromise s' = None) \<and>
   (\<exists>s'. loadCommand (Some 140) deep = Inr s' \<and>
         requests s' = [GetTableCall] \<and> loadingPromise s' = Some GetTable)"
  using loadCommand_backfill [of 0 editing] loadCommand_backfill [of 10 deep]
        loadCommand_backfill [of 140 deep]
  by (auto simp: editing_def deep_def browsing_def constructor_def)

text \<open>
  C9, as stated: the test \<open>index >= history.length\<close> keeps the read
  \<open>history[history.length - index - 1]\<close> of every accepted index within the array. The
  index \<open>-1\<close> is accepted on a history of three commands and reads \<open>history[3]\<close>, which is
  \<open>undefined\<close>.
\<close>

theorem lookup_negative_index_counterexample:
  "\<not> (- 1 \<ge> int (length (history browsing))) \<and>
   int (length (history browsing)) - (- 1) - 1 = 3 \<and>
   js_nth (history browsing) (int (length (history browsing)) - (- 1) - 1) = None \<and>
   loadCommand (Some (- 1)) browsing =
     Inl (UndefinedValue, browsing\<lparr>commandHistoryIndex := Some (- 1)\<rparr>)"
  by (simp add: browsing_def constructor_def loadCommand_def map_get_def nullish_def
        js_nth_def setModelValue_def)

text \<open>
  C9, amended. For an index \<open>i \<ge> history.length\<close>, \<open>loadCommand(i)\<close> returns with the
  state as it was: index, editor text, map of edited versions, awaited promise and issued
  requests are all unchanged. \<open>loadCommand\<close> does not test the index from below: the read
  \<open>history[history.length - i - 1]\<close> is within the array for the accepted indices with
  \<open>0 \<le> i\<close>, and past its end for the negative ones. The key handler passes only \<open>null\<close> and
  non-negative indices: in a state whose index is \<open>null\<close> or non-negative a key press either
  fails its \<open>assertNotNull\<close> or ends normally with the index again \<open>null\<close> or non-negative.
\<close>

theorem loadCommand_out_of_range_noop:
  "(int (length (history s)) \<le> i \<longrightarrow> loadCommand (Some i) s = Inr s) \<and>
   (0 \<le> i \<and> i < int (length (history s)) \<longrightarrow>
      js_nth (history s) (int (length (history s)) - i - 1) =
        Some (history s ! nat (int (length (history s)) - i - 1)) \<and>
      (\<exists>s'. loadCommand (Some i) s = Inr s')) \<and>
   (i < 0 \<longrightarrow> js_nth (history s) (int (length (history s)) - i - 1) = None) \<and>
   ((\<forall>j. commandHistoryIndex s = Some j \<longrightarrow> 0 \<le> j) \<longrightarrow>
      (\<exists>s'. onKeyDown ev position lineCount populated s = Inr s' \<and>
            (\<forall>j. commandHistoryIndex s' = Some j \<longrightarrow> 0 \<le> j)) \<or>
      onKeyDown ev position lineCount populated s = Inl (AssertionError, s))"
proof -
  have "int (length (history s)) \<le> i \<longrightarrow> loadCommand (Some i) s = Inr s"
    by (simp add: loadCommand_beyond)
  moreover have "0 \<le> i \<and> i < int (length (history s)) \<longrightarrow>
      js_nth (history s) (int (length (history s)) - i - 1) =
        Some (history s ! nat (int (length (history s)) - i - 1)) \<and>
      (\<exists>s'. loadCommand (Some i) s = Inr s')"
    by (simp add: js_nth_history loadCommand_Some)
  moreover have "i < 0 \<longrightarrow> js_nth (history s) (int (length (history s)) - i - 1) = None"
    by (simp add: js_nth_negative)
  moreover have "(\<forall>j. commandHistoryIndex s = Some j \<longrightarrow> 0 \<le> j) \<longrightarrow>
      (\<exists>s'. onKeyDown ev position lineCount populated s = Inr s' \<and>
            (\<forall>j. commandHistoryIndex s' = Some j \<longrightarrow> 0 \<le> j)) \<or>
      onKeyDown ev position lineCount populated s = Inl (AssertionError, s)"
    using onKeyDown_index [of s ev position lineCount populated] by blast
  ultimately show ?thesis by blast
qed

theorem loadCommand_out_of_range_noop_witness:
  "int (length (history editing)) \<le> 3 \<and> loadCommand (Some 3) editing = Inr editing \<and>
   (2::int) < int (length (history editing)) \<and>
   js_nth (history editing) (int (length (history editing)) - 2 - 1) = Some ''x = 1'' \<and>
   (\<exists>s'. loadCommand (Some 2) editing = Inr s') \<and>
   js_nth (history editing) (int (length (history editing)) - (- 1) - 1) = None \<and>
   (\<exists>s'. onKeyDown (key ''ArrowDown'' 18) (Some 1) 1 False editing = Inr s' \<and>
         (\<forall>j. commandHistoryIndex s' = Some j \<longrightarrow> 0 \<le> j))"
  using loadCommand_out_of_range_noop [of editing 3 "key ''ArrowDown'' 18" "Some 1" 1 False]
        loadCommand_out_of_range_noop [of editing 2 "key ''ArrowDown'' 18" "Some 1" 1 False]
        loadCommand_out_of_range_noop [of editing "- 1" "key ''ArrowDown'' 18" "Some 1" 1 False]
  by (simp add: run samples)

text \<open>
  C10. \<open>processCommand\<close> appends the command to \<open>history\<close> exactly when it is non-empty
  and differs from the last entry (or there is none), so submitting the same command twice in
  a row adds it once. The page \<open>loadMoreHistory\<close> puts in front of \<open>history\<close> is the
  fetched names with adjacent duplicates removed, reversed; no two neighbours in it are equal.
\<close>

theorem history_deduplication:
  "history (processCommand command s) =
     (if command \<noteq> '''' \<and> (history s = [] \<or> command \<noteq> last (history s))
      then history s @ [command] else history s) \<and>
   history (processCommand command (processCommand command s)) =
     history (processCommand command s) \<and>
   page_commands viewportData = rev (remdups_adj (map name (items viewportData))) \<and>
   distinct_adj (page_commands viewportData) \<and>
   (loadingPromise s = Some (GetViewportData table) \<longrightarrow>
      (\<exists>s'. loadMoreHistory_resume (Inr (Data viewportData)) s = Inr s' \<and>
            history s' = rev (remdups_adj (map name (items viewportData))) @ history s))"
proof -
  have l: "history s \<noteq> [] \<Longrightarrow> history s ! (length (history s) - 1) = last (history s)"
    by (simp add: last_conv_nth)
  have h: "history (processCommand command s) =
     (if command \<noteq> '''' \<and> (history s = [] \<or> command \<noteq> last (history s))
      then history s @ [command] else history s)" for command s
    using l by (auto simp: processCommand_def Let_def last_conv_nth)
  have twice: "history (processCommand command (processCommand command s)) =
     history (processCommand command s)"
    by (simp add: h)
  have page: "page_commands viewportData = rev (remdups_adj (map name (items viewportData)))"
    by (simp add: page_commands_def js_filter_names)
  have adj: "distinct_adj (page_commands viewportData)"
    by (simp add: page)
  have resume: "loadingPromise s = Some (GetViewportData table) \<longrightarrow>
      (\<exists>s'. loadMoreHistory_resume (Inr (Data viewportData)) s = Inr s' \<and>
            history s' = rev (remdups_adj (map name (items viewportData))) @ history s)"
    by (simp add: loadMoreHistory_resume_def Let_def page)
  show ?thesis using h twice page adj resume by blast
qed

theorem history_deduplication_witness:
  "history (processCommand '''' browsing) = [''x = 1'', ''y = 2'', ''print(x)''] \<and>
   history (processCommand ''print(x)'' browsing) = [''x = 1'', ''y = 2'', ''print(x)''] \<and>
   history (processCommand ''y = 2'' browsing) = [''x = 1'', ''y = 2'', ''print(x)'', ''y = 2''] \<and>
   history (processCommand ''y = 2'' (processCommand ''y = 2'' browsing)) =
     history (processCommand ''y = 2'' browsing) \<and>
   page_commands sample_page = [''b'', ''a'', ''b''] \<and>
   loadingPromise awaiting_page = Some (GetViewportData sample_table) \<and>
   (\<exists>s'. loadMoreHistory_resume (Inr (Data sample_page)) awaiting_page = Inr s' \<and>
         history s' = [''b'', ''a'', ''b'', ''x = 1'', ''y = 2'', ''print(x)''])"
  using history_deduplication [of "''''" browsing sample_page sample_table]
        history_deduplication [of "''print(x)''" browsing sample_page sample_table]
        history_deduplication [of "''y = 2''" browsing sample_page sample_table]
        history_deduplication [of "''y = 2''" awaiting_page sample_page sample_table]
  by (simp add: browsing_def awaiting_page_def constructor_def sample_page_def)

subsection \<open>Fetching and cancelling\<close>

text \<open>
  C5, as stated: when a fetch is in flight, a further request for history cancels it and
  the later request is the one served. It fails on the freshly mounted component, whose first
  fetch is in flight: a second \<open>loadMoreHistory\<close> changes nothing, cancels nothing and issues
  no request.
\<close>

theorem superseding_fetch_counterexample:
  "loadingPromise mounted = Some GetTable \<and> bufferIndex mounted = Some 0 \<and>
   loadMoreHistory mounted = mounted \<and>
   GetTable \<notin> set (canceled (loadMoreHistory mounted)) \<and>
   requests (loadMoreHistory mounted) = requests mounted"
  by (simp add: mounted_def componentDidMount_def initCommandEditor_def loadMoreHistory_def
        constructor_def)

text \<open>
  C5, amended. A fetch in flight is cancelled on unmount: \<open>componentWillUnmount\<close> cancels
  the awaited promise, and the awaiting \<open>loadMoreHistory\<close> then ends with the promise marker
  reset and history and requests untouched. A further \<open>loadMoreHistory\<close> while a fetch is in
  flight is ignored, so the fetch already in flight is the one served. When the underlying
  request of a cancelled fetch resolves, the table handle is closed and history is untouched.
\<close>

theorem history_fetch_cancellation:
  "(loadingPromise s = Some p \<longrightarrow>
      canceled (componentWillUnmount s) = canceled s @ [p] \<and>
      (\<exists>s'. unmount s = Inr s' \<and> loadingPromise s' = None \<and>
            canceled s' = canceled s @ [p] \<and> history s' = history s \<and>
            requests s' = requests s) \<and>
      loadMoreHistory s = s) \<and>
   (k < length (canceled s) \<and> canceled s ! k = GetTable \<longrightarrow>
      requests (settle_canceled k (Inr (Table table)) s) = requests s @ [Close table] \<and>
      history (settle_canceled k (Inr (Table table)) s) = history s) \<and>
   (k < length (canceled s) \<and> canceled s ! k = GetViewportData table \<longrightarrow>
      requests (settle_canceled k (Inr v) s) = requests s @ [Close table] \<and>
      history (settle_canceled k (Inr v) s) = history s)"
  by (auto simp: componentWillUnmount_def cancel_def destroyCommandEditor_def unmount_def
        loadMoreHistory_resume_def loadMoreHistory_catch_def isCanceled_def Let_def
        loadMoreHistory_def settle_canceled_def)

theorem history_fetch_cancellation_witness:
  "loadingPromise mounted = Some GetTable \<and>
   canceled (componentWillUnmount mounted) = [GetTable] \<and>
   (\<exists>s'. unmount mounted = Inr s' \<and> loadingPromise s' = None \<and> canceled s' = [GetTable]) \<and>
   loadMoreHistory mounted = mounted \<and>
   (0::nat) < length (canceled abandoned) \<and> canceled abandoned ! 0 = GetTable \<and>
   requests (settle_canceled 0 (Inr (Table sample_table)) abandoned) = [Close sample_table] \<and>
   (1::nat) < length (canceled abandoned) \<and>
   canceled abandoned ! 1 = GetViewportData sample_table \<and>
   requests (settle_canceled 1 (Inr (Data sample_page)) abandoned) = [Close sample_table]"
  using history_fetch_cancellation [of mounted GetTable 0 sample_table "Data sample_page"]
        history_fetch_cancellation [of abandoned GetTable 0 sample_table "Data sample_page"]
        history_fetch_cancellation [of abandoned GetTable 1 sample_table "Data sample_page"]
  by (auto simp: mounted_def componentDidMount_def initCommandEditor_def loadMoreHistory_def
        constructor_def abandoned_def)

text \<open>
  C6. However the awaited promise settles, the resumed \<open>loadMoreHistory\<close> completes
  normally: no exception reaches its caller. When the promise rejects, the promise marker is
  reset and nothing else changes but the log: a cancellation leaves a debug line and no error
  line, any other error is logged as an error.
\<close>

theorem loadMoreHistory_swallows_errors:
  "(\<exists>s'. loadMoreHistory_resume r s = Inr s') \<and>
   (loadingPromise s = Some p \<longrightarrow>
      loadMoreHistory_resume (Inl err) s =
        Inr (s\<lparr>loadingPromise := None,
               logged := logged s @
                 [if isCanceled err then Debug2 ''Promise canceled, not loading history''
                  else LogError ''Error fetching history'' err]\<rparr>))"
  by (auto simp: loadMoreHistory_resume_def loadMoreHistory_catch_def Let_def
           split: option.splits sum.splits)

theorem loadMoreHistory_swallows_errors_witness:
  "loadingPromise mounted = Some GetTable \<and>
   loadMoreHistory_resume (Inl CanceledPromiseError) mounted =
     Inr (mounted\<lparr>loadingPromise := None,
                  logged := [Debug2 ''Promise canceled, not loading history'']\<rparr>) \<and>
   loadMoreHistory_resume (Inl (FetchError ''timeout'')) mounted =
     Inr (mounted\<lparr>loadingPromise := None,
                  logged := [LogError ''Error fetching history'' (FetchError ''timeout'')]\<rparr>)"
  using loadMoreHistory_swallows_errors
          [of "Inl CanceledPromiseError" mounted GetTable CanceledPromiseError]
        loadMoreHistory_swallows_errors
          [of "Inl CanceledPromiseError" mounted GetTable "FetchError ''timeout''"]
  by (simp add: mounted_def componentDidMount_def initCommandEditor_def loadMoreHistory_def
        constructor_def isCanceled_def)

subsection \<open>The hooks\<close>

text \<open>
  C7. For any table argument, \<open>null\<close> and \<open>undefined\<close> included, and any list of
  factories, \<open>useFilterConditionFactories\<close> returns the results of the factories on the
  table that are neither \<open>null\<close> nor \<open>undefined\<close>, in the order of the factories.
\<close>

theorem useFilterConditionFactories_results:
  "map Defined (useFilterConditionFactories maybeTable filterConditionFactories) =
     filter (\<lambda>r. r \<noteq> Null \<and> r \<noteq> Undefined)
       (map (\<lambda>f. f maybeTable) filterConditionFactories)"
  by (simp add: useFilterConditionFactories_def removeNullAndUndefined_filter)

theorem useFilterConditionFactories_results_witness:
  "map Defined (useFilterConditionFactories Null sample_factories) =
     [Defined ''a'', Defined ''c''] \<and>
   map Defined (useFilterConditionFactories Undefined sample_factories) =
     [Defined ''a'', Defined ''c''] \<and>
   map Defined (useFilterConditionFactories (Defined 5) sample_factories) =
     [Defined ''a'', Defined ''b'', Defined ''c'']"
  using useFilterConditionFactories_results [of Null sample_factories]
        useFilterConditionFactories_results [of Undefined sample_factories]
        useFilterConditionFactories_results [of "Defined 5" sample_factories]
  by (simp add: sample_factories_def)

text \<open>
  C8. \<open>useClient\<close> returns the client the context supplies; when the context holds
  \<open>null\<close> or \<open>undefined\<close> it throws an error whose message names \<open>ClientBootstrap\<close> and
  \<open>ClientContext.Provider\<close>. It returns a client only when the context supplies that client.
\<close>

theorem useClient_result:
  "useClient (Defined (client :: 'c)) = Inr client \<and>
   useClient (Null :: 'c maybe) =
     (Inl ''No Client available in useClient. Was code wrapped in ClientBootstrap or ClientContext.Provider?'' :: string + 'c) \<and>
   useClient (Undefined :: 'c maybe) =
     (Inl ''No Client available in useClient. Was code wrapped in ClientBootstrap or ClientContext.Provider?'' :: string + 'c) \<and>
   (useClient context = Inr client) = (context = Defined client)"
  by (auto simp: useClient_def useContextOrThrow_def split: maybe.splits)

theorem useClient_result_witness:
  "useClient (Defined (42::nat)) = Inr 42 \<and> isl (useClient (Null :: nat maybe)) \<and>
   isl (useClient (Undefined :: nat maybe)) \<and> useClient (Null :: nat maybe) \<noteq> Inr 42"
  using useClient_result [of "42::nat" Null]
  by simp

end
